theory Spec2Isabelle
  imports Main "HOL-Library.Word"
begin

unbundle bit_operations_syntax

section \<open>Machine types and constants\<close>

text \<open>
  The driver is C for the Linux kernel. \<open>u16\<close> and \<open>u32\<close> are the kernel's fixed-width
  types; \<open>unsigned long\<close> is taken at its LP64 width of 64 bits (x86-64). Arithmetic on
  words wraps around, as unsigned arithmetic does in C. Return codes are C \<open>int\<close>s; only
  their sign and their comparison with zero matter, so they are modelled as \<open>int\<close>.
\<close>

type_synonym u16 = "16 word"
type_synonym u32 = "32 word"
type_synonym ulong = "64 word"

text \<open>The errno values of the kernel that the file returns negated.\<close>

definition ENOMEM :: int where "ENOMEM = 12"
definition ENODEV :: int where "ENODEV = 19"
definition EINVAL :: int where "EINVAL = 22"

definition PAGE_SIZE :: ulong where "PAGE_SIZE = 4096"

text \<open>
  The macros that the file uses are declared in \<open>i915_drv.h\<close> and in the kernel's
  \<open>pci_ids.h\<close>; neither header is part of the sources at hand. They are therefore
  parameters of the model, collected in one record whose fields carry the macros' names:
  the device ids and bit fields that \<open>i915_probe_agp\<close> compares against, the chip
  family tests (predicates on \<open>dev->pci_device\<close>), and two plain constants. The case
  labels of one C \<open>switch\<close> are pairwise distinct (the compiler rejects anything
  else), which \<open>labels_distinct\<close> records.
\<close>

record driver_macros =
  PCI_DEVICE_ID_INTEL_82830_CGC :: u16
  PCI_DEVICE_ID_INTEL_82845G_IG :: u16
  PCI_DEVICE_ID_INTEL_82855GM_IG :: u16
  PCI_DEVICE_ID_INTEL_82865_IG :: u16
  INTEL_GMCH_MEM_MASK :: u16
  INTEL_GMCH_MEM_64M :: u16
  INTEL_855_GMCH_GMS_MASK :: u16
  INTEL_855_GMCH_GMS_STOLEN_1M :: u16
  INTEL_855_GMCH_GMS_STOLEN_4M :: u16
  INTEL_855_GMCH_GMS_STOLEN_8M :: u16
  INTEL_855_GMCH_GMS_STOLEN_16M :: u16
  INTEL_855_GMCH_GMS_STOLEN_32M :: u16
  INTEL_915G_GMCH_GMS_STOLEN_48M :: u16
  INTEL_915G_GMCH_GMS_STOLEN_64M :: u16
  INTEL_855_GMCH_GMS_DISABLED :: u16
  IS_G33 :: "u16 \<Rightarrow> bool"
  IS_MOBILE :: "u16 \<Rightarrow> bool"
  IS_I9XX :: "u16 \<Rightarrow> bool"
  IS_I965G :: "u16 \<Rightarrow> bool"
  I915_MAX_VALIDATE_BUFFERS :: int
  DRIVER_NAME :: string

definition labels_distinct :: "driver_macros \<Rightarrow> bool" where
  "labels_distinct c =
     (distinct [PCI_DEVICE_ID_INTEL_82830_CGC c, PCI_DEVICE_ID_INTEL_82845G_IG c,
                PCI_DEVICE_ID_INTEL_82855GM_IG c, PCI_DEVICE_ID_INTEL_82865_IG c] \<and>
      distinct [INTEL_855_GMCH_GMS_STOLEN_1M c, INTEL_855_GMCH_GMS_STOLEN_4M c,
                INTEL_855_GMCH_GMS_STOLEN_8M c, INTEL_855_GMCH_GMS_STOLEN_16M c,
                INTEL_855_GMCH_GMS_STOLEN_32M c, INTEL_915G_GMCH_GMS_STOLEN_48M c,
                INTEL_915G_GMCH_GMS_STOLEN_64M c, INTEL_855_GMCH_GMS_DISABLED c])"

text \<open>
  One instance of the macros, following the Intel GMCH register layout: the memory-size
  bit is bit 0 of the control word, the graphics-mode-select field is bits 4 to 6. It is
  the concrete instance at which the general statements below are evaluated; no general
  statement depends on it.
\<close>

definition gmch_layout :: driver_macros where
  "gmch_layout =
     \<lparr> PCI_DEVICE_ID_INTEL_82830_CGC = 0x3577,
       PCI_DEVICE_ID_INTEL_82845G_IG = 0x2562,
       PCI_DEVICE_ID_INTEL_82855GM_IG = 0x3582,
       PCI_DEVICE_ID_INTEL_82865_IG = 0x2572,
       INTEL_GMCH_MEM_MASK = 0x1,
       INTEL_GMCH_MEM_64M = 0x1,
       INTEL_855_GMCH_GMS_MASK = 0x70,
       INTEL_855_GMCH_GMS_STOLEN_1M = 0x10,
       INTEL_855_GMCH_GMS_STOLEN_4M = 0x20,
       INTEL_855_GMCH_GMS_STOLEN_8M = 0x30,
       INTEL_855_GMCH_GMS_STOLEN_16M = 0x40,
       INTEL_855_GMCH_GMS_STOLEN_32M = 0x50,
       INTEL_915G_GMCH_GMS_STOLEN_48M = 0x60,
       INTEL_915G_GMCH_GMS_STOLEN_64M = 0x70,
       INTEL_855_GMCH_GMS_DISABLED = 0x00,
       IS_G33 = (\<lambda>d. d = 0x29C2 \<or> d = 0x29B2 \<or> d = 0x29D2),
       IS_MOBILE = (\<lambda>d. d = 0x3577 \<or> d = 0x3582 \<or> d = 0x2592 \<or> d = 0x27A2
                         \<or> d = 0x27AE \<or> d = 0x2A02 \<or> d = 0x2A12 \<or> d = 0x2A42),
       IS_I9XX = (\<lambda>d. \<not> (d = 0x3577 \<or> d = 0x2562 \<or> d = 0x3582 \<or> d = 0x2572)),
       IS_I965G = (\<lambda>d. d = 0x2972 \<or> d = 0x2982 \<or> d = 0x2992 \<or> d = 0x29A2
                        \<or> d = 0x2A02 \<or> d = 0x2A12 \<or> d = 0x2A42),
       I915_MAX_VALIDATE_BUFFERS = 4096,
       DRIVER_NAME = ''i915'' \<rparr>"

section \<open>PCI devices\<close>

text \<open>
  What the file reads of a \<open>struct pci_dev\<close>: the device id, the start and length of its
  resource regions (\<open>pci_resource_len\<close>, \<open>drm_get_resource_start\<close>,
  \<open>drm_get_resource_len\<close>) and the configuration dword at offset \<open>0x5C\<close>.
\<close>

record pci_dev =
  device :: u16
  resource_start :: "nat \<Rightarrow> ulong"
  resource_len :: "nat \<Rightarrow> ulong"
  config_dword_5C :: u32

section \<open>Capacity probing: \<open>i915_probe_agp\<close>\<close>

text \<open>
  The first switch of \<open>i915_probe_agp\<close>: the four ids that share the first case.
\<close>

definition legacy_device :: "driver_macros \<Rightarrow> u16 \<Rightarrow> bool" where
  "legacy_device c d =
     (d = PCI_DEVICE_ID_INTEL_82830_CGC c \<or> d = PCI_DEVICE_ID_INTEL_82845G_IG c \<or>
      d = PCI_DEVICE_ID_INTEL_82855GM_IG c \<or> d = PCI_DEVICE_ID_INTEL_82865_IG c)"

text \<open>
  \<open>i915_probe_agp\<close> returns an \<open>int\<close> and writes through two pointers. The model takes
  the values the two pointees hold on entry and returns the return code together with the
  values they hold on exit, so that the early return (nothing written) and the late
  failures (both already written) stay visible. The argument \<open>bridge_dev\<close> is the result
  of \<open>pci_get_bus_and_slot(0, PCI_DEVFN(0,0))\<close>: \<open>None\<close> for a null pointer, otherwise
  the word that \<open>pci_read_config_word(bridge_dev, INTEL_GMCH_CTRL, &tmp)\<close> stores in
  \<open>tmp\<close>. The reference taken on the bridge is dropped again by \<open>pci_dev_put\<close> before
  anything else happens and leaves no trace in the model.
\<close>

definition i915_probe_agp ::
  "driver_macros \<Rightarrow> u16 option \<Rightarrow> pci_dev \<Rightarrow> ulong \<Rightarrow> ulong \<Rightarrow> int \<times> ulong \<times> ulong" where
  "i915_probe_agp c bridge_dev pdev aperture_size0 preallocated_size0 =
     (case bridge_dev of
        None \<Rightarrow> (- 1, aperture_size0, preallocated_size0)
      | Some tmp \<Rightarrow>
          let aperture_size =
                (if legacy_device c (device pdev)
                 then (if tmp AND INTEL_GMCH_MEM_MASK c = INTEL_GMCH_MEM_64M c
                       then 1024 * 1024 * 64 else 1024 * 1024 * 128)
                 else resource_len pdev 2);
              preallocated_size = 1024 * 1024;
              overhead = aperture_size div 1024 + 4096;
              gms = tmp AND INTEL_855_GMCH_GMS_MASK c
          in if gms = INTEL_855_GMCH_GMS_STOLEN_1M c
               then (0, aperture_size, preallocated_size - overhead)
             else if gms = INTEL_855_GMCH_GMS_STOLEN_4M c
               then (0, aperture_size, preallocated_size * 4 - overhead)
             else if gms = INTEL_855_GMCH_GMS_STOLEN_8M c
               then (0, aperture_size, preallocated_size * 8 - overhead)
             else if gms = INTEL_855_GMCH_GMS_STOLEN_16M c
               then (0, aperture_size, preallocated_size * 16 - overhead)
             else if gms = INTEL_855_GMCH_GMS_STOLEN_32M c
               then (0, aperture_size, preallocated_size * 32 - overhead)
             else if gms = INTEL_915G_GMCH_GMS_STOLEN_48M c
               then (0, aperture_size, preallocated_size * 48 - overhead)
             else if gms = INTEL_915G_GMCH_GMS_STOLEN_64M c
               then (0, aperture_size, preallocated_size * 64 - overhead)
             else if gms = INTEL_855_GMCH_GMS_DISABLED c
               then (- 1, aperture_size, preallocated_size)
             else (- 1, aperture_size, preallocated_size))"

section \<open>Device state\<close>

text \<open>
  Pointers to objects owned by collaborators are handles; a null pointer is \<open>None\<close>.
\<close>

type_synonym handle = nat

record drm_dma_handle =
  vaddr :: handle
  busaddr :: ulong

record drm_memrange_node =
  start :: ulong

text \<open>The fields of \<open>dev_priv->hws_map\<close> that \<open>i915_init_hwstatus\<close> fills in.\<close>

record drm_map =
  map_offset :: ulong
  map_size :: ulong
  map_type :: nat
  map_flags :: nat
  map_mtrr :: int
  map_handle :: "handle option"

text \<open>The fields of \<open>struct drm_i915_private\<close> that the file reads or writes.\<close>

record drm_i915_private =
  mmio_map :: "handle option"
  mmiobase :: ulong
  mmiolen :: ulong
  stolen_base :: u32
  cursor_needs_physical :: bool
  status_page_dmah :: "drm_dma_handle option"
  hws_vaddr :: "handle option"
  dma_status_page :: ulong
  hws :: "drm_memrange_node option"
  hws_agpoffset :: ulong
  hws_map :: drm_map
  allow_batchbuffer :: int
  max_validate_buffers :: int
  wq :: "handle option"
  next_gem_seqno :: u32

text \<open>
  The block as \<open>memset(dev_priv, 0, sizeof(struct drm_i915_private))\<close> leaves it.
\<close>

definition zeroed_private :: drm_i915_private where
  "zeroed_private =
     \<lparr> mmio_map = None, mmiobase = 0, mmiolen = 0, stolen_base = 0,
       cursor_needs_physical = False, status_page_dmah = None, hws_vaddr = None,
       dma_status_page = 0, hws = None, hws_agpoffset = 0,
       hws_map = \<lparr> map_offset = 0, map_size = 0, map_type = 0, map_flags = 0,
                   map_mtrr = 0, map_handle = None \<rparr>,
       allow_batchbuffer = 0, max_validate_buffers = 0, wq = None, next_gem_seqno = 0 \<rparr>"

text \<open>The two device registers the file writes with \<open>I915_WRITE\<close>.\<close>

datatype reg = PRB0_CTL | HWS_PGA

datatype drm_stat_type =
  DRM_STAT_IRQ | DRM_STAT_PRIMARY | DRM_STAT_SECONDARY | DRM_STAT_DMA | DRM_STAT_UNSET

text \<open>
  Every call that leaves the file is logged, in program order, with the arguments and
  the outcome that matter to the caller. The log is how the model observes which
  collaborators ran, in which order, and on which objects.
\<close>

datatype event =
    Drm_memrange_init ulong ulong
  | I915_gem_do_init ulong ulong
  | I915_gem_init_ringbuffer int
  | I915_gem_cleanup_ringbuffer
  | Drm_pci_alloc "drm_dma_handle option"
  | Drm_pci_free drm_dma_handle
  | Drm_memrange_search_free "handle option"
  | Drm_memrange_get_block "drm_memrange_node option"
  | Drm_memrange_put_block drm_memrange_node
  | Drm_core_ioremap "handle option"
  | Drm_core_ioremapfree handle
  | Write32 reg u32
  | Memset_page handle
  | Mutex_init
  | Create_singlethread_workqueue "handle option"
  | Destroy_workqueue "handle option"
  | Intel_init_bios int
  | Intel_modeset_init
  | Drm_helper_initial_config
  | Kstrdup bool
  | Kfree_devname
  | Drm_irq_install int
  | Drm_irq_uninstall
  | Intel_modeset_cleanup
  | Mutex_lock
  | Mutex_unlock
  | Drm_memrange_takedown
  | I915_gem_lastclose
  | Drm_alloc bool
  | Drm_free
  | Pci_read_config_dword_5C
  | Drm_addmap ulong ulong int
  | Drm_rmmap "handle option"
  | Init_mm_bookkeeping

text \<open>
  The device: the fields of \<open>struct drm_device\<close> that the file touches, and with them
  the two things outside the C data that the properties are about, the content of the
  device registers (\<open>mmio\<close>) and the log of calls (\<open>calls\<close>). \<open>driver_modeset\<close> is the
  value of \<open>drm_core_check_feature(dev, DRIVER_MODESET)\<close>; \<open>agp\<close> is \<open>dev->agp\<close>,
  reduced to its \<open>base\<close>.
\<close>

record drm_device =
  pdev :: pci_dev
  pci_device :: u16
  driver_modeset :: bool
  agp :: "ulong option"
  dev_private :: "drm_i915_private option"
  devname :: "string option"
  counters :: int
  types :: "nat \<Rightarrow> drm_stat_type"
  fb_base :: ulong
  mmio :: "reg \<Rightarrow> u32"
  calls :: "event list"

text \<open>
  What the collaborators answer. Their code is not part of the file, so each answer is
  an input of the model: a null or non-null pointer, or a return code.
  \<open>stack_agp_size\<close> and \<open>stack_prealloc_size\<close> are the indeterminate values that the
  uninitialised locals \<open>agp_size\<close> and \<open>prealloc_size\<close> of \<open>i915_load_modeset_init\<close>
  hold before \<open>i915_probe_agp\<close> is called.
\<close>

record collaborators =
  bridge_dev :: "u16 option"
  stack_agp_size :: ulong
  stack_prealloc_size :: ulong
  gem_init_ringbuffer_ret :: int
  pci_alloc_res :: "drm_dma_handle option"
  search_free_res :: "handle option"
  get_block_res :: "drm_memrange_node option"
  ioremap_res :: "handle option"
  create_workqueue_res :: "handle option"
  init_bios_ret :: int
  kstrdup_ok :: bool
  irq_install_ret :: int
  drm_alloc_ok :: bool
  addmap_ret :: int
  addmap_map :: handle

text \<open>
  A dereference of a null pointer stops the kernel thread where it stands. The model
  returns it as an error value that carries the state reached at that point, so that
  what had been done before the fault stays observable.
\<close>

datatype fault = Null_dereference

type_synonym 'a outcome = "(fault \<times> drm_device) + 'a"

definition call :: "event \<Rightarrow> drm_device \<Rightarrow> drm_device" where
  "call e dev = dev\<lparr>calls := calls dev @ [e]\<rparr>"

text \<open>
  \<open>I915_WRITE(reg, val)\<close> is a 32-bit store to the register window, which the macro
  reaches through the local \<open>dev_priv\<close> and its field \<open>mmio_map\<close>. Both are
  dereferenced: the store faults when the private block or the register mapping is
  null, and nothing is written then.
\<close>

definition I915_WRITE :: "reg \<Rightarrow> u32 \<Rightarrow> drm_device \<Rightarrow> drm_device outcome" where
  "I915_WRITE r v dev =
     (case dev_private dev of
        None \<Rightarrow> Inl (Null_dereference, dev)
      | Some dev_priv \<Rightarrow>
          (case mmio_map dev_priv of
             None \<Rightarrow> Inl (Null_dereference, dev)
           | Some m \<Rightarrow> Inr (call (Write32 r v) (dev\<lparr>mmio := (mmio dev)(r := v)\<rparr>))))"

section \<open>The hardware status page\<close>

definition i915_init_hwstatus ::
  "driver_macros \<Rightarrow> collaborators \<Rightarrow> drm_device \<Rightarrow> (int \<times> drm_device) outcome" where
  "i915_init_hwstatus c env dev =
     (case dev_private dev of
        None \<Rightarrow> Inl (Null_dereference, dev)
      | Some dev_priv \<Rightarrow>
          (if \<not> IS_G33 c (pci_device dev) then
             (let dev_priv1 = dev_priv\<lparr>status_page_dmah := pci_alloc_res env\<rparr>;
                  dev1 = call (Drm_pci_alloc (pci_alloc_res env))
                           (dev\<lparr>dev_private := Some dev_priv1\<rparr>)
              in (case pci_alloc_res env of
                    None \<Rightarrow> Inr (- ENOMEM, dev1)
                  | Some dmah \<Rightarrow>
                      (let dev_priv2 = dev_priv1\<lparr>hws_vaddr := Some (vaddr dmah),
                                                dma_status_page := busaddr dmah\<rparr>
                       in (case I915_WRITE HWS_PGA (ucast (busaddr dmah))
                                  (dev1\<lparr>dev_private := Some dev_priv2\<rparr>) of
                             Inl f \<Rightarrow> Inl f
                           | Inr dev2 \<Rightarrow> Inr (0, call (Memset_page (vaddr dmah)) dev2)))))
           else
             (let dev1 = call (Drm_memrange_search_free (search_free_res env)) dev
              in (case search_free_res env of
                    None \<Rightarrow> Inr (- ENOMEM, dev1)
                  | Some free_space \<Rightarrow>
                      (let dev_priv1 = dev_priv\<lparr>hws := get_block_res env\<rparr>;
                           dev2 = call (Drm_memrange_get_block (get_block_res env))
                                    (dev1\<lparr>dev_private := Some dev_priv1\<rparr>)
                       in (case get_block_res env of
                             None \<Rightarrow> Inr (- EINVAL, dev2)
                           | Some block \<Rightarrow>
                               (case agp dev of
                                  None \<Rightarrow>
                                    Inl (Null_dereference,
                                         dev2\<lparr>dev_private :=
                                           Some (dev_priv1\<lparr>hws_agpoffset := start block\<rparr>)\<rparr>)
                                | Some base \<Rightarrow>
                                    (let dev_priv2 = dev_priv1
                                           \<lparr>hws_agpoffset := start block,
                                            hws_map :=
                                              \<lparr> map_offset = base + start block,
                                                map_size = PAGE_SIZE, map_type = 0,
                                                map_flags = 0, map_mtrr = 0,
                                                map_handle = ioremap_res env \<rparr>\<rparr>;
                                         dev3 = call (Drm_core_ioremap (ioremap_res env))
                                                  (dev2\<lparr>dev_private := Some dev_priv2\<rparr>)
                                     in (case ioremap_res env of
                                           None \<Rightarrow>
                                             Inr (- ENOMEM,
                                                  dev3\<lparr>dev_private :=
                                                    Some (dev_priv2\<lparr>hws_agpoffset := 0\<rparr>)\<rparr>)
                                         | Some h \<Rightarrow>
                                             (let dev_priv3 = dev_priv2\<lparr>hws_vaddr := Some h\<rparr>
                                              in (case I915_WRITE HWS_PGA (ucast (start block))
                                                         (dev3\<lparr>dev_private := Some dev_priv3\<rparr>) of
                                                    Inl f \<Rightarrow> Inl f
                                                  | Inr dev4 \<Rightarrow>
                                                      Inr (0, call (Memset_page h) dev4))))))))))))"

definition i915_cleanup_hwstatus :: "driver_macros \<Rightarrow> drm_device \<Rightarrow> drm_device outcome" where
  "i915_cleanup_hwstatus c dev =
     (case dev_private dev of
        None \<Rightarrow> Inl (Null_dereference, dev)
      | Some dev_priv \<Rightarrow>
          (let dev1 =
                 (if \<not> IS_G33 c (pci_device dev) then
                    (case status_page_dmah dev_priv of
                       None \<Rightarrow> dev
                     | Some dmah \<Rightarrow> call (Drm_pci_free dmah) dev)
                  else
                    (let dev0 = (case map_handle (hws_map dev_priv) of
                                   None \<Rightarrow> dev
                                 | Some h \<Rightarrow> call (Drm_core_ioremapfree h) dev)
                     in (case hws dev_priv of
                           None \<Rightarrow> dev0
                         | Some block \<Rightarrow> call (Drm_memrange_put_block block) dev0)))
           in I915_WRITE HWS_PGA 0x1ffff000 dev1))"

section \<open>The bring-up sequence: \<open>i915_load_modeset_init\<close>\<close>

text \<open>
  The cleanup labels at the end of \<open>i915_load_modeset_init\<close> fall through into one
  another; each label is a function that runs its own statement and then the next label.
\<close>

definition label_destroy_ringbuffer :: "drm_device \<Rightarrow> drm_device" where
  "label_destroy_ringbuffer dev = call I915_gem_cleanup_ringbuffer dev"

definition label_destroy_hws :: "driver_macros \<Rightarrow> drm_device \<Rightarrow> drm_device outcome" where
  "label_destroy_hws c dev =
     (case i915_cleanup_hwstatus c dev of
        Inl f \<Rightarrow> Inl f
      | Inr dev1 \<Rightarrow> Inr (label_destroy_ringbuffer dev1))"

definition label_destroy_wq :: "driver_macros \<Rightarrow> drm_device \<Rightarrow> drm_device outcome" where
  "label_destroy_wq c dev =
     (case dev_private dev of
        None \<Rightarrow> Inl (Null_dereference, dev)
      | Some dev_priv \<Rightarrow> label_destroy_hws c (call (Destroy_workqueue (wq dev_priv)) dev))"

definition label_modeset_cleanup :: "driver_macros \<Rightarrow> drm_device \<Rightarrow> drm_device outcome" where
  "label_modeset_cleanup c dev = label_destroy_wq c (call Intel_modeset_cleanup dev)"

text \<open>The \<open>return ret\<close> that ends the chain of labels.\<close>

definition returning :: "int \<Rightarrow> drm_device outcome \<Rightarrow> (int \<times> drm_device) outcome" where
  "returning ret r = (case r of Inl f \<Rightarrow> Inl f | Inr dev \<Rightarrow> Inr (ret, dev))"

text \<open>
  The return code of \<open>i915_probe_agp\<close> is not assigned to anything by the caller:
  \<open>agp_size\<close> and \<open>prealloc_size\<close> are used as the call left them.
\<close>

definition i915_load_modeset_init ::
  "driver_macros \<Rightarrow> collaborators \<Rightarrow> drm_device \<Rightarrow> (int \<times> drm_device) outcome" where
  "i915_load_modeset_init c env dev =
     (case dev_private dev of
        None \<Rightarrow> Inl (Null_dereference, dev)
      | Some dev_priv0 \<Rightarrow>
          (let (ignored_ret, agp_size, prealloc_size) =
                 i915_probe_agp c (bridge_dev env) (pdev dev)
                   (stack_agp_size env) (stack_prealloc_size env);
               dev1 = call (Drm_memrange_init 0 prealloc_size) dev;
               dev2 = call (I915_gem_do_init prealloc_size agp_size) dev1;
               ret = gem_init_ringbuffer_ret env;
               dev3 = call (I915_gem_init_ringbuffer ret) dev2
           in if ret \<noteq> 0 then Inr (ret, dev3)
              else
                (case i915_init_hwstatus c env dev3 of
                   Inl f \<Rightarrow> Inl f
                 | Inr (ret, dev4) \<Rightarrow>
                     (if ret \<noteq> 0 then Inr (ret, label_destroy_ringbuffer dev4)
                      else
                        (case dev_private dev4 of
                           None \<Rightarrow> Inl (Null_dereference, dev4)
                         | Some dev_priv \<Rightarrow>
                             (let dev_priv1 = dev_priv
                                    \<lparr>allow_batchbuffer := 1,
                                     max_validate_buffers := I915_MAX_VALIDATE_BUFFERS c,
                                     wq := create_workqueue_res env\<rparr>;
                                  dev5 = call Mutex_init (dev4\<lparr>dev_private := Some dev_priv1\<rparr>);
                                  dev6 = call (Create_singlethread_workqueue
                                                 (create_workqueue_res env)) dev5
                              in if create_workqueue_res env = None
                                 then returning (- EINVAL) (label_destroy_hws c dev6)
                                 else
                                   (let ret = init_bios_ret env;
                                        dev7 = call (Intel_init_bios ret) dev6
                                    in if ret \<noteq> 0
                                       then returning (- ENODEV) (label_destroy_wq c dev7)
                                       else
                                         (let dev8 = call Intel_modeset_init dev7;
                                              dev9 = call Drm_helper_initial_config dev8;
                                              dev10 = call (Kstrdup (kstrdup_ok env))
                                                        (dev9\<lparr>devname :=
                                                           (if kstrdup_ok env
                                                            then Some (DRIVER_NAME c)
                                                            else None)\<rparr>)
                                          in if \<not> kstrdup_ok env
                                             then returning (- ENOMEM)
                                                    (label_modeset_cleanup c dev10)
                                             else
                                               (let ret = irq_install_ret env;
                                                    dev11 = call (Drm_irq_install ret) dev10
                                                in if ret \<noteq> 0
                                                   then returning ret
                                                          (label_modeset_cleanup c
                                                             (call Kfree_devname dev11))
                                                   else Inr (0, dev11))))))))))"

section \<open>Load and unload\<close>

text \<open>
  \<open>i915_driver_load\<close> up to the test of \<open>DRIVER_MODESET\<close>: \<open>Inl\<close> carries the return
  code and the state when the function returns before the test, \<open>Inr\<close> the state in
  which the test is made. The blocks that depend on the kernel version are not part of
  the model.
\<close>

definition i915_driver_load_prologue ::
  "driver_macros \<Rightarrow> collaborators \<Rightarrow> drm_device \<Rightarrow> (int \<times> drm_device) + drm_device" where
  "i915_driver_load_prologue c env dev =
     (if \<not> drm_alloc_ok env then Inl (- ENOMEM, call (Drm_alloc False) dev)
      else
        (let d = pci_device dev;
             dev_priv1 = zeroed_private
               \<lparr>cursor_needs_physical :=
                  (if IS_I965G c d \<or> IS_G33 c d then False
                   else (IS_MOBILE c d \<or> IS_I9XX c d))\<rparr>;
             dev1 = (call (Drm_alloc True) dev)
               \<lparr>counters := counters dev + 4,
                types := (types dev)(6 := DRM_STAT_IRQ, 7 := DRM_STAT_PRIMARY,
                                     8 := DRM_STAT_SECONDARY, 9 := DRM_STAT_DMA)\<rparr>;
             dev_priv2 = (if IS_I9XX c d
                          then dev_priv1\<lparr>stolen_base := config_dword_5C (pdev dev)\<rparr>
                          else dev_priv1);
             dev2 = (if IS_I9XX c d then call Pci_read_config_dword_5C dev1 else dev1);
             rs = resource_start (pdev dev);
             rl = resource_len (pdev dev);
             window = (if IS_I9XX c d then Some (rs 0, rl 0, rs 2 AND 0xff000000)
                       else if rs 1 \<noteq> 0 then Some (rs 1, rl 1, rs 0 AND 0xff000000)
                       else None)
         in (case window of
               None \<Rightarrow>
                 Inl (- ENODEV, call Drm_free (dev2\<lparr>dev_private := Some dev_priv2\<rparr>))
             | Some (base, len, fb) \<Rightarrow>
                 (let dev_priv3 = dev_priv2\<lparr>mmiobase := base, mmiolen := len\<rparr>;
                      ret = addmap_ret env;
                      dev3 = call (Drm_addmap base len ret) (dev2\<lparr>fb_base := fb\<rparr>)
                  in if ret \<noteq> 0
                     then Inl (ret, call Drm_free (dev3\<lparr>dev_private := Some dev_priv3\<rparr>))
                     else
                       (let dev_priv4 = dev_priv3\<lparr>mmio_map := Some (addmap_map env),
                                                 next_gem_seqno := 1\<rparr>
                        in Inr (call Init_mm_bookkeeping
                                  (dev3\<lparr>dev_private := Some dev_priv4\<rparr>)))))))"

definition i915_driver_load ::
  "driver_macros \<Rightarrow> collaborators \<Rightarrow> drm_device \<Rightarrow> ulong \<Rightarrow> (int \<times> drm_device) outcome" where
  "i915_driver_load c env dev flags =
     (case i915_driver_load_prologue c env dev of
        Inl (ret, dev1) \<Rightarrow> Inr (ret, dev1)
      | Inr dev1 \<Rightarrow>
          (if driver_modeset dev1 then
             (case i915_load_modeset_init c env dev1 of
                Inl f \<Rightarrow> Inl f
              | Inr (ret, dev2) \<Rightarrow>
                  (if ret < 0 then
                     (case dev_private dev2 of
                        None \<Rightarrow> Inl (Null_dereference, dev2)
                      | Some dev_priv \<Rightarrow>
                          Inr (ret, call Drm_free (call (Drm_rmmap (mmio_map dev_priv)) dev2)))
                   else Inr (0, dev2)))
           else Inr (0, dev1)))"

text \<open>
  \<open>i915_driver_unload\<close>. The blocks under \<open>#if 0\<close>, \<open>#ifdef DRI2\<close> and the kernel
  version test are not part of the model.
\<close>

definition i915_driver_unload ::
  "driver_macros \<Rightarrow> drm_device \<Rightarrow> (int \<times> drm_device) outcome" where
  "i915_driver_unload c dev =
     (case dev_private dev of
        None \<Rightarrow> Inl (Null_dereference, dev)
      | Some dev_priv \<Rightarrow>
          (case I915_WRITE PRB0_CTL 0 dev of
             Inl f \<Rightarrow> Inl f
           | Inr dev1 \<Rightarrow>
               (let dev2 = (if driver_modeset dev1 then
                              (let dev_a = call Drm_irq_uninstall dev1;
                                   dev_b = call Intel_modeset_cleanup dev_a
                               in call (Destroy_workqueue (wq dev_priv)) dev_b)
                            else dev1)
                in (case i915_cleanup_hwstatus c dev2 of
                      Inl f \<Rightarrow> Inl f
                    | Inr dev3 \<Rightarrow>
                        (let dev4 = (if driver_modeset dev3 then
                                       (let dev_a = call Mutex_lock dev3;
                                            dev_b = call I915_gem_cleanup_ringbuffer dev_a;
                                            dev_c = call Mutex_unlock dev_b;
                                            dev_d = call Drm_memrange_takedown dev_c
                                        in call I915_gem_lastclose dev_d)
                                     else dev3);
                             dev5 = call (Drm_rmmap (mmio_map dev_priv)) dev4;
                             dev6 = call Drm_free dev5
                         in Inr (0, dev6\<lparr>dev_private := None\<rparr>))))))"

section \<open>Observations\<close>

text \<open>What a call returned, if it returned, and the state it left or faulted in.\<close>

definition ret_of :: "(int \<times> drm_device) outcome \<Rightarrow> int option" where
  "ret_of r = (case r of Inl (f, dev) \<Rightarrow> None | Inr (ret, dev) \<Rightarrow> Some ret)"

definition state_of :: "(int \<times> drm_device) outcome \<Rightarrow> drm_device" where
  "state_of r = (case r of Inl (f, dev) \<Rightarrow> dev | Inr (ret, dev) \<Rightarrow> dev)"

text \<open>The calls that a run started in \<open>dev\<close> has added to the log.\<close>

definition new_calls :: "drm_device \<Rightarrow> (int \<times> drm_device) outcome \<Rightarrow> event list" where
  "new_calls dev r = drop (length (calls dev)) (calls (state_of r))"

definition faulted :: "(int \<times> drm_device) outcome \<Rightarrow> bool" where
  "faulted r = (case r of Inl f \<Rightarrow> True | Inr x \<Rightarrow> False)"

text \<open>
  The private block of a device (the zeroed one when there is none), and whether the
  device has a private block whose register mapping is set.
\<close>

definition private_of :: "drm_device \<Rightarrow> drm_i915_private" where
  "private_of dev = (case dev_private dev of None \<Rightarrow> zeroed_private | Some dev_priv \<Rightarrow> dev_priv)"

definition window_mapped :: "drm_device \<Rightarrow> bool" where
  "window_mapped dev =
     (case dev_private dev of None \<Rightarrow> False | Some dev_priv \<Rightarrow> mmio_map dev_priv \<noteq> None)"

text \<open>
  The release calls that the status-page fields of the private block stand for: the
  DMA page on chips other than the G33, the mapping and then the stolen block on a G33.
\<close>

definition status_page_releases :: "driver_macros \<Rightarrow> drm_device \<Rightarrow> event list" where
  "status_page_releases c dev =
     (if \<not> IS_G33 c (pci_device dev) then
        (case status_page_dmah (private_of dev) of
           None \<Rightarrow> []
         | Some dmah \<Rightarrow> [Drm_pci_free dmah])
      else
        (case map_handle (hws_map (private_of dev)) of
           None \<Rightarrow> []
         | Some h \<Rightarrow> [Drm_core_ioremapfree h]) @
        (case hws (private_of dev) of
           None \<Rightarrow> []
         | Some block \<Rightarrow> [Drm_memrange_put_block block]))"

definition is_reg_write :: "event \<Rightarrow> bool" where
  "is_reg_write e = (case e of Write32 r v \<Rightarrow> True | _ \<Rightarrow> False)"

text \<open>Two calls of \<open>i915_driver_unload\<close> in a row, the second on the state the first left.\<close>

definition unload_twice :: "driver_macros \<Rightarrow> drm_device \<Rightarrow> (int \<times> drm_device) outcome" where
  "unload_twice c dev =
     (case i915_driver_unload c dev of
        Inl f \<Rightarrow> Inl f
      | Inr (ret, dev1) \<Rightarrow> i915_driver_unload c dev1)"

section \<open>Resources held\<close>

text \<open>
  The objects that the bring-up sequence takes from its collaborators and has to give
  back, and the calls that take and return them. A call that fails takes nothing. The
  stolen-memory allocator and the memory manager that the first two calls set up are not
  among them: \<open>i915_load_modeset_init\<close> has no label that takes them down again, only
  \<open>i915_driver_unload\<close> does.
\<close>

datatype resource =
    Ring_buffer
  | Status_page_dma drm_dma_handle
  | Stolen_block drm_memrange_node
  | Status_page_mapping handle
  | Work_queue handle
  | Modeset_state
  | Devname_copy
  | Irq_handler

definition acquired :: "event \<Rightarrow> resource option" where
  "acquired e =
     (case e of
        I915_gem_init_ringbuffer ret \<Rightarrow> (if ret = 0 then Some Ring_buffer else None)
      | Drm_pci_alloc r \<Rightarrow> map_option Status_page_dma r
      | Drm_memrange_get_block r \<Rightarrow> map_option Stolen_block r
      | Drm_core_ioremap r \<Rightarrow> map_option Status_page_mapping r
      | Create_singlethread_workqueue r \<Rightarrow> map_option Work_queue r
      | Intel_modeset_init \<Rightarrow> Some Modeset_state
      | Kstrdup ok \<Rightarrow> (if ok then Some Devname_copy else None)
      | Drm_irq_install ret \<Rightarrow> (if ret = 0 then Some Irq_handler else None)
      | _ \<Rightarrow> None)"

definition released :: "event \<Rightarrow> resource option" where
  "released e =
     (case e of
        I915_gem_cleanup_ringbuffer \<Rightarrow> Some Ring_buffer
      | Drm_pci_free h \<Rightarrow> Some (Status_page_dma h)
      | Drm_memrange_put_block b \<Rightarrow> Some (Stolen_block b)
      | Drm_core_ioremapfree h \<Rightarrow> Some (Status_page_mapping h)
      | Destroy_workqueue r \<Rightarrow> map_option Work_queue r
      | Intel_modeset_cleanup \<Rightarrow> Some Modeset_state
      | Kfree_devname \<Rightarrow> Some Devname_copy
      | Drm_irq_uninstall \<Rightarrow> Some Irq_handler
      | _ \<Rightarrow> None)"

text \<open>
  \<open>held st es\<close> runs a log against the stack \<open>st\<close> of resources held, newest first. A
  release is accepted only for the newest resource held, so the result is \<open>None\<close> as
  soon as something is released out of order, twice, or without having been taken.
  \<open>outstanding\<close> is the same bookkeeping without the order: a release may name any
  resource held.
\<close>

fun held :: "resource list \<Rightarrow> event list \<Rightarrow> resource list option" where
  "held st [] = Some st"
| "held st (e # es) =
     (case released e of
        Some r \<Rightarrow> (case st of
                     [] \<Rightarrow> None
                   | x # st' \<Rightarrow> if x = r then held st' es else None)
      | None \<Rightarrow> (case acquired e of
                   Some r \<Rightarrow> held (r # st) es
                 | None \<Rightarrow> held st es))"

fun outstanding :: "resource list \<Rightarrow> event list \<Rightarrow> resource list option" where
  "outstanding st [] = Some st"
| "outstanding st (e # es) =
     (case released e of
        Some r \<Rightarrow> (if r \<in> set st then outstanding (remove1 r st) es else None)
      | None \<Rightarrow> (case acquired e of
                   Some r \<Rightarrow> outstanding (r # st) es
                 | None \<Rightarrow> outstanding st es))"

text \<open>
  The answers under which \<open>i915_init_hwstatus\<close> reaches its label \<open>out_free\<close>: a G33,
  a free block found and reserved, and the mapping refused.
\<close>

definition map_failure :: "driver_macros \<Rightarrow> collaborators \<Rightarrow> drm_device \<Rightarrow> bool" where
  "map_failure c env dev =
     (IS_G33 c (pci_device dev) \<and> search_free_res env \<noteq> None \<and>
      get_block_res env \<noteq> None \<and> ioremap_res env = None)"

section \<open>Example configurations\<close>

text \<open>
  Concrete devices and collaborator answers at which the statements below are
  evaluated: an 865G (one of the four ids of the first case of \<open>i915_probe_agp\<close>,
  registers in resource 1), a G33 (status page carved from stolen memory, aperture of
  256 MiB in resource 2), and a 915G whose resource 2 is not assigned, for which
  \<open>pci_resource_len\<close> is 0.
\<close>

definition pdev_865G :: pci_dev where
  "pdev_865G =
     \<lparr> device = 0x2572,
       resource_start = (\<lambda>n. if n = 0 then 0xE0000000 else if n = 1 then 0xF0000000 else 0),
       resource_len = (\<lambda>n. if n = 0 then 0x8000000 else if n = 1 then 0x80000 else 0),
       config_dword_5C = 0 \<rparr>"

definition pdev_G33 :: pci_dev where
  "pdev_G33 =
     \<lparr> device = 0x29C2,
       resource_start = (\<lambda>n. if n = 0 then 0xF0000000 else if n = 2 then 0xE0000000 else 0),
       resource_len = (\<lambda>n. if n = 0 then 0x80000 else if n = 2 then 0x10000000 else 0),
       config_dword_5C = 0x7F800000 \<rparr>"

definition pdev_915G_no_bar2 :: pci_dev where
  "pdev_915G_no_bar2 =
     \<lparr> device = 0x2582,
       resource_start = (\<lambda>n. if n = 0 then 0xF0000000 else 0),
       resource_len = (\<lambda>n. if n = 0 then 0x80000 else 0),
       config_dword_5C = 0 \<rparr>"

text \<open>
  A mode-setting device before \<open>i915_driver_load\<close>: no private block, registers and
  log empty.
\<close>

definition attached :: "pci_dev \<Rightarrow> drm_device" where
  "attached p =
     \<lparr> pdev = p, pci_device = device p, driver_modeset = True,
       agp = Some 0xE0000000, dev_private = None, devname = None, counters = 6,
       types = (\<lambda>n. DRM_STAT_UNSET), fb_base = 0, mmio = (\<lambda>r. 0), calls = [] \<rparr>"

text \<open>
  A device whose private block is allocated and zeroed and nothing more: no register
  mapping, no status page, no work queue.
\<close>

definition zeroed :: "pci_dev \<Rightarrow> drm_device" where
  "zeroed p = (attached p)\<lparr>dev_private := Some zeroed_private\<rparr>"

text \<open>
  Collaborators that all succeed. The bridge's control word \<open>0x31\<close> has the 64 MiB bit
  set and the stolen-memory field at 8 MiB.
\<close>

definition all_succeed :: collaborators where
  "all_succeed =
     \<lparr> bridge_dev = Some 0x31, stack_agp_size = 0, stack_prealloc_size = 0,
       gem_init_ringbuffer_ret = 0,
       pci_alloc_res = Some \<lparr> vaddr = 1, busaddr = 0x1000000 \<rparr>,
       search_free_res = Some 2,
       get_block_res = Some \<lparr> start = 0x700000 \<rparr>,
       ioremap_res = Some 3,
       create_workqueue_res = Some 4,
       init_bios_ret = 0, kstrdup_ok = True, irq_install_ret = 0,
       drm_alloc_ok = True, addmap_ret = 0, addmap_map = 5 \<rparr>"

text \<open>
  Single failures: the bridge reports video memory as disabled (stolen-memory field 0),
  the mapping of the status page fails, the interrupt handler cannot be installed
  (\<open>drm_irq_install\<close> returns \<open>-EBUSY\<close>).
\<close>

definition gms_disabled :: collaborators where
  "gms_disabled = all_succeed\<lparr>bridge_dev := Some 0x01\<rparr>"

definition map_fails :: collaborators where
  "map_fails = all_succeed\<lparr>ioremap_res := None\<rparr>"

definition irq_fails :: collaborators where
  "irq_fails = all_succeed\<lparr>irq_install_ret := - 16\<rparr>"

text \<open>
  The interrupt installation answering with a code that is neither 0 nor negative.
\<close>

definition irq_positive :: collaborators where
  "irq_positive = all_succeed\<lparr>irq_install_ret := 16\<rparr>"

text \<open>
  The state in which \<open>i915_driver_load\<close> reaches its test of \<open>DRIVER_MODESET\<close>
  (\<open>prepared\<close>), the same state with the log started afresh (\<open>mapped\<close>), and the state
  a successful load leaves, again with the log started afresh (\<open>loaded\<close>).
\<close>

definition prepared :: "pci_dev \<Rightarrow> drm_device" where
  "prepared p =
     (case i915_driver_load_prologue gmch_layout all_succeed (attached p) of
        Inl (ret, dev) \<Rightarrow> dev
      | Inr dev \<Rightarrow> dev)"

definition mapped :: "pci_dev \<Rightarrow> drm_device" where
  "mapped p = (prepared p)\<lparr>calls := []\<rparr>"

definition loaded :: "pci_dev \<Rightarrow> drm_device" where
  "loaded p =
     (state_of (i915_driver_load gmch_layout all_succeed (attached p) 0))\<lparr>calls := []\<rparr>"

section \<open>Evaluation\<close>

text \<open>
  The equations that evaluate the model, and those that unfold the example
  configurations.
\<close>

lemmas model_defs =
  i915_probe_agp_def legacy_device_def i915_init_hwstatus_def i915_cleanup_hwstatus_def
  label_destroy_ringbuffer_def label_destroy_hws_def label_destroy_wq_def
  label_modeset_cleanup_def returning_def i915_load_modeset_init_def
  i915_driver_load_prologue_def i915_driver_load_def i915_driver_unload_def
  unload_twice_def call_def I915_WRITE_def zeroed_private_def
  ret_of_def state_of_def new_calls_def faulted_def is_reg_write_def
  private_of_def window_mapped_def status_page_releases_def
  acquired_def released_def
  ENOMEM_def EINVAL_def ENODEV_def PAGE_SIZE_def Let_def

lemmas example_defs =
  gmch_layout_def all_succeed_def gms_disabled_def map_fails_def irq_fails_def
  irq_positive_def attached_def zeroed_def prepared_def mapped_def loaded_def
  pdev_865G_def pdev_G33_def pdev_915G_no_bar2_def

lemma gmch_layout_labels_distinct: "labels_distinct gmch_layout"
  by (simp add: labels_distinct_def gmch_layout_def)

section \<open>Properties of capacity probing\<close>

text \<open>
  C9. With an aperture of 64 MiB (one of the four older ids with the 64 MiB bit set in
  the control word, or any other id whose resource 2 is 64 MiB long) and the
  stolen-memory field of the control word at its 8 MiB encoding, \<open>i915_probe_agp\<close>
  returns 0 and reports an aperture of 64 MiB and a preallocated size of
  8 * 1024 * 1024 - (64 * 1024 * 1024 / 1024 + 4096) = 8318976 bytes.
\<close>

theorem probe_agp_64M_aperture_8M_stolen:
  assumes "labels_distinct c"
      and "tmp AND INTEL_855_GMCH_GMS_MASK c = INTEL_855_GMCH_GMS_STOLEN_8M c"
      and "if legacy_device c (device pd)
           then tmp AND INTEL_GMCH_MEM_MASK c = INTEL_GMCH_MEM_64M c
           else resource_len pd 2 = 64 * 1024 * 1024"
  shows "i915_probe_agp c (Some tmp) pd a0 p0 = (0, 64 * 1024 * 1024, 8318976) \<and>
         (8318976 :: ulong) = 8 * 1024 * 1024 - (64 * 1024 * 1024 div 1024 + 4096)"
  using assms
  by (auto simp: i915_probe_agp_def labels_distinct_def Let_def split: if_splits)

text \<open>
  The statement at the 865G with the control word \<open>0x31\<close>: bit 0 selects 64 MiB, the
  field in bits 4 to 6 is 3, the encoding of 8 MiB.
\<close>

theorem probe_agp_64M_aperture_8M_stolen_witness:
  "labels_distinct gmch_layout \<and>
   0x31 AND INTEL_855_GMCH_GMS_MASK gmch_layout = INTEL_855_GMCH_GMS_STOLEN_8M gmch_layout \<and>
   (if legacy_device gmch_layout (device pdev_865G)
    then 0x31 AND INTEL_GMCH_MEM_MASK gmch_layout = INTEL_GMCH_MEM_64M gmch_layout
    else resource_len pdev_865G 2 = 64 * 1024 * 1024) \<and>
   i915_probe_agp gmch_layout (Some 0x31) pdev_865G 0 0 = (0, 64 * 1024 * 1024, 8318976)"
proof -
  have h1: "labels_distinct gmch_layout"
    by (rule gmch_layout_labels_distinct)
  have h2: "0x31 AND INTEL_855_GMCH_GMS_MASK gmch_layout =
            INTEL_855_GMCH_GMS_STOLEN_8M gmch_layout"
    by (simp add: gmch_layout_def)
  have h3: "if legacy_device gmch_layout (device pdev_865G)
            then 0x31 AND INTEL_GMCH_MEM_MASK gmch_layout = INTEL_GMCH_MEM_64M gmch_layout
            else resource_len pdev_865G 2 = 64 * 1024 * 1024"
    by (simp add: gmch_layout_def legacy_device_def pdev_865G_def)
  from probe_agp_64M_aperture_8M_stolen [OF h1 h2 h3, of 0 0] h1 h2 h3
  show ?thesis by blast
qed

text \<open>
  For an aperture between 64 MiB and 1020 MiB the overhead does not exceed the smallest
  stolen size and what is left of the largest one still fits into the aperture. The
  seven inequalities are the seven successful cases of the second switch, with the
  constant parts of the subtraction already computed.
\<close>

lemma stolen_minus_overhead_le_aperture:
  fixes a :: ulong
  assumes "67108864 \<le> a" and "a \<le> 1069547520"
  shows "1044480 - a div 1024 \<le> a" and "4190208 - a div 1024 \<le> a"
    and "8384512 - a div 1024 \<le> a" and "16773120 - a div 1024 \<le> a"
    and "33550336 - a div 1024 \<le> a" and "50327552 - a div 1024 \<le> a"
    and "67104768 - a div 1024 \<le> a"
  using assms by unat_arith+

text \<open>
  C4, as the code has it. \<open>i915_probe_agp\<close> does not compare the two sizes. For the four
  older ids the aperture is 64 or 128 MiB and the preallocated size never exceeds it;
  for every other id the aperture is the length of resource 2 as the PCI layer reports
  it, and the bound follows when that length lies between 64 MiB and 1020 MiB. In
  either case the call returns -1, or returns 0 with a preallocated size that is at most
  the aperture size, whatever the control word is and whether or not the bridge is
  found.
\<close>

theorem probe_agp_prealloc_le_aperture:
  assumes "i915_probe_agp c bridge pd a0 p0 = (ret, aperture_size, preallocated_size)"
      and "legacy_device c (device pd) \<or>
           (64 * 1024 * 1024 \<le> resource_len pd 2 \<and> resource_len pd 2 \<le> 1020 * 1024 * 1024)"
  shows "ret = - 1 \<or> (ret = 0 \<and> preallocated_size \<le> aperture_size)"
proof (cases bridge)
  case None
  with assms(1) show ?thesis
    by (simp add: i915_probe_agp_def)
next
  case (Some tmp)
  show ?thesis
  proof (cases "legacy_device c (device pd)")
    case True
    with assms(1) Some show ?thesis
      unfolding i915_probe_agp_def Let_def
      by (auto split: if_splits)
  next
    case False
    with assms(2) have b: "67108864 \<le> resource_len pd 2" "resource_len pd 2 \<le> 1069547520"
      by simp_all
    from assms(1) Some False show ?thesis
      unfolding i915_probe_agp_def Let_def
      using stolen_minus_overhead_le_aperture [OF b]
      by (auto split: if_splits)
  qed
qed

theorem probe_agp_prealloc_le_aperture_witness:
  "i915_probe_agp gmch_layout (Some 0x31) pdev_865G 0 0 = (0, 67108864, 8318976) \<and>
   (legacy_device gmch_layout (device pdev_865G) \<or>
    (64 * 1024 * 1024 \<le> resource_len pdev_865G 2 \<and>
     resource_len pdev_865G 2 \<le> 1020 * 1024 * 1024)) \<and>
   ((0 :: int) = - 1 \<or> ((0 :: int) = 0 \<and> (8318976 :: ulong) \<le> 67108864))"
proof -
  have h1: "i915_probe_agp gmch_layout (Some 0x31) pdev_865G 0 0 = (0, 67108864, 8318976)"
    by (simp add: model_defs example_defs)
  have h2: "legacy_device gmch_layout (device pdev_865G) \<or>
            (64 * 1024 * 1024 \<le> resource_len pdev_865G 2 \<and>
             resource_len pdev_865G 2 \<le> 1020 * 1024 * 1024)"
    by (simp add: model_defs example_defs)
  from probe_agp_prealloc_le_aperture [OF h1 h2] h1 h2
  show ?thesis by blast
qed

text \<open>
  C4 as stated fails: a 915G whose resource 2 is not assigned has a length of 0 there.
  With the control word \<open>0x30\<close> (8 MiB stolen) the call returns 0, an aperture of 0 and a
  preallocated size of 8 MiB - 4096 = 8384512 bytes.
\<close>

theorem probe_agp_prealloc_exceeds_aperture:
  "i915_probe_agp gmch_layout (Some 0x30) pdev_915G_no_bar2 0 0 = (0, 0, 8384512) \<and>
   \<not> (8384512 :: ulong) \<le> 0"
  by (simp add: model_defs example_defs)

section \<open>Properties of the status page\<close>

text \<open>
  C10. When \<open>i915_init_hwstatus\<close> returns an error, whichever it is, it has written no
  device register: the register contents are those on entry and the log holds no
  register write that was not there before. The only write to \<open>HWS_PGA\<close> sits behind
  the last failure test of each of the two strategies.
\<close>

theorem init_hwstatus_failure_writes_no_register:
  assumes "i915_init_hwstatus c env dev = Inr (ret, dev')" and "ret \<noteq> 0"
  shows "mmio dev' = mmio dev \<and>
         filter is_reg_write (calls dev') = filter is_reg_write (calls dev)"
  using assms unfolding i915_init_hwstatus_def
  by (auto simp: Let_def call_def I915_WRITE_def is_reg_write_def
           split: option.splits if_splits sum.splits)

text \<open>The statement at the G33 whose status page cannot be mapped.\<close>

theorem init_hwstatus_failure_writes_no_register_witness:
  "i915_init_hwstatus gmch_layout map_fails (mapped pdev_G33) =
     Inr (- ENOMEM, state_of (i915_init_hwstatus gmch_layout map_fails (mapped pdev_G33))) \<and>
   - ENOMEM \<noteq> 0 \<and>
   mmio (state_of (i915_init_hwstatus gmch_layout map_fails (mapped pdev_G33))) =
     mmio (mapped pdev_G33) \<and>
   filter is_reg_write
     (calls (state_of (i915_init_hwstatus gmch_layout map_fails (mapped pdev_G33)))) =
     filter is_reg_write (calls (mapped pdev_G33))"
proof -
  have h1: "i915_init_hwstatus gmch_layout map_fails (mapped pdev_G33) =
     Inr (- ENOMEM, state_of (i915_init_hwstatus gmch_layout map_fails (mapped pdev_G33)))"
    by (simp add: model_defs example_defs)
  have h2: "- ENOMEM \<noteq> 0"
    by (simp add: ENOMEM_def)
  from init_hwstatus_failure_writes_no_register [OF h1 h2] h1 h2
  show ?thesis by blast
qed

text \<open>
  What \<open>i915_cleanup_hwstatus\<close> does on a device whose register window is mapped: it
  makes the release calls that the status-page fields stand for, then writes
  \<open>0x1ffff000\<close> to \<open>HWS_PGA\<close>, and changes nothing else. The fields themselves are
  left as they were.
\<close>

lemma cleanup_hwstatus_mapped:
  assumes "window_mapped dev"
  shows "i915_cleanup_hwstatus c dev =
           Inr (dev\<lparr>mmio := (mmio dev)(HWS_PGA := 0x1ffff000),
                    calls := calls dev @ status_page_releases c dev @
                             [Write32 HWS_PGA 0x1ffff000]\<rparr>)"
  using assms
  unfolding i915_cleanup_hwstatus_def window_mapped_def status_page_releases_def
    private_of_def
  by (auto simp: Let_def call_def I915_WRITE_def split: option.splits)

text \<open>
  Without a register mapping the final store faults: the releases have been made, no
  register has been written.
\<close>

lemma cleanup_hwstatus_unmapped:
  assumes "dev_private dev \<noteq> None" and "\<not> window_mapped dev"
  shows "i915_cleanup_hwstatus c dev =
           Inl (Null_dereference, dev\<lparr>calls := calls dev @ status_page_releases c dev\<rparr>)"
  using assms
  unfolding i915_cleanup_hwstatus_def window_mapped_def status_page_releases_def
    private_of_def
  by (auto simp: Let_def call_def I915_WRITE_def split: option.splits)

text \<open>
  The teardown is a static function, and both of its callers reach it with the register
  window mapped: \<open>i915_driver_unload\<close> has by then made its own register write, and the
  cleanup labels of \<open>i915_load_modeset_init\<close> that lead to it are reached only after
  \<open>i915_init_hwstatus\<close> has returned 0, that is after its register write.
\<close>

lemma I915_WRITE_done_window_mapped:
  assumes "I915_WRITE r v dev = Inr dev1"
  shows "window_mapped dev1"
  using assms unfolding I915_WRITE_def window_mapped_def
  by (auto simp: call_def split: option.splits)

lemma init_hwstatus_done_window_mapped:
  assumes "i915_init_hwstatus c env dev = Inr (0, dev')"
  shows "window_mapped dev'"
  using assms unfolding i915_init_hwstatus_def window_mapped_def
  by (auto simp: Let_def call_def I915_WRITE_def ENOMEM_def EINVAL_def
           split: option.splits if_splits sum.splits)

text \<open>
  C5. On every device whose register window is mapped, \<open>i915_cleanup_hwstatus\<close> ends
  with the write of \<open>0x1ffff000\<close> to \<open>HWS_PGA\<close>, whatever the private block holds: a
  DMA page, a mapped stolen block, or nothing. The register then holds that value, the
  write is the last call made, and a second call on the state so reached leaves all
  registers as the first one left them.
\<close>

theorem cleanup_hwstatus_writes_sentinel:
  assumes "window_mapped dev"
  shows "\<exists>dev1 dev2.
           i915_cleanup_hwstatus c dev = Inr dev1 \<and>
           mmio dev1 HWS_PGA = 0x1ffff000 \<and>
           last (calls dev1) = Write32 HWS_PGA 0x1ffff000 \<and>
           i915_cleanup_hwstatus c dev1 = Inr dev2 \<and>
           mmio dev2 = mmio dev1"
proof -
  let ?dev1 = "dev\<lparr>mmio := (mmio dev)(HWS_PGA := 0x1ffff000),
                    calls := calls dev @ status_page_releases c dev @
                             [Write32 HWS_PGA 0x1ffff000]\<rparr>"
  have 1: "i915_cleanup_hwstatus c dev = Inr ?dev1"
    by (rule cleanup_hwstatus_mapped [OF assms])
  from assms have w: "window_mapped ?dev1"
    by (simp add: window_mapped_def)
  from cleanup_hwstatus_mapped [OF w, of c]
  have 2: "\<exists>dev2. i915_cleanup_hwstatus c ?dev1 = Inr dev2 \<and> mmio dev2 = mmio ?dev1"
    by simp
  from 1 2 show ?thesis
    by auto
qed

text \<open>
  The statement at three devices: one on which no status page was ever set up (the state
  in which load reaches the bring-up sequence), a loaded 865G with its DMA page, and a
  loaded G33 with its mapped stolen block.
\<close>

theorem cleanup_hwstatus_writes_sentinel_witness:
  "window_mapped (mapped pdev_G33) \<and>
   (\<exists>dev1 dev2.
      i915_cleanup_hwstatus gmch_layout (mapped pdev_G33) = Inr dev1 \<and>
      mmio dev1 HWS_PGA = 0x1ffff000 \<and>
      last (calls dev1) = Write32 HWS_PGA 0x1ffff000 \<and>
      i915_cleanup_hwstatus gmch_layout dev1 = Inr dev2 \<and>
      mmio dev2 = mmio dev1) \<and>
   window_mapped (loaded pdev_865G) \<and>
   (\<exists>dev1 dev2.
      i915_cleanup_hwstatus gmch_layout (loaded pdev_865G) = Inr dev1 \<and>
      mmio dev1 HWS_PGA = 0x1ffff000 \<and>
      last (calls dev1) = Write32 HWS_PGA 0x1ffff000 \<and>
      i915_cleanup_hwstatus gmch_layout dev1 = Inr dev2 \<and>
      mmio dev2 = mmio dev1) \<and>
   window_mapped (loaded pdev_G33) \<and>
   (\<exists>dev1 dev2.
      i915_cleanup_hwstatus gmch_layout (loaded pdev_G33) = Inr dev1 \<and>
      mmio dev1 HWS_PGA = 0x1ffff000 \<and>
      last (calls dev1) = Write32 HWS_PGA 0x1ffff000 \<and>
      i915_cleanup_hwstatus gmch_layout dev1 = Inr dev2 \<and>
      mmio dev2 = mmio dev1)"
proof -
  have h1: "window_mapped (mapped pdev_G33)"
    by (simp add: model_defs example_defs)
  have h2: "window_mapped (loaded pdev_865G)"
    by (simp add: model_defs example_defs)
  have h3: "window_mapped (loaded pdev_G33)"
    by (simp add: model_defs example_defs)
  from cleanup_hwstatus_writes_sentinel [OF h1, of gmch_layout]
       cleanup_hwstatus_writes_sentinel [OF h2, of gmch_layout]
       cleanup_hwstatus_writes_sentinel [OF h3, of gmch_layout] h1 h2 h3
  show ?thesis by blast
qed

text \<open>
  C3 is not what the code does. On a G33, with a free block found and reserved and the
  mapping refused, \<open>i915_init_hwstatus\<close> returns \<open>-ENOMEM\<close> after three calls, none of
  which is \<open>drm_memrange_put_block\<close>: the label \<open>out_free\<close> holds only the comment
  \<open>free hws\<close>. The block is still held when the error reaches the caller, and
  \<open>dev_priv->hws\<close> still points to it.
\<close>

theorem init_hwstatus_map_failure_keeps_block:
  "ret_of (i915_init_hwstatus gmch_layout map_fails (mapped pdev_G33)) = Some (- ENOMEM) \<and>
   new_calls (mapped pdev_G33) (i915_init_hwstatus gmch_layout map_fails (mapped pdev_G33)) =
     [Drm_memrange_search_free (Some 2),
      Drm_memrange_get_block (Some \<lparr>start = 0x700000\<rparr>),
      Drm_core_ioremap None] \<and>
   outstanding []
     (new_calls (mapped pdev_G33) (i915_init_hwstatus gmch_layout map_fails (mapped pdev_G33))) =
     Some [Stolen_block \<lparr>start = 0x700000\<rparr>] \<and>
   map_option hws
     (dev_private (state_of (i915_init_hwstatus gmch_layout map_fails (mapped pdev_G33)))) =
     Some (Some \<lparr>start = 0x700000\<rparr>)"
  by (simp add: model_defs example_defs)

section \<open>Properties of the bring-up sequence\<close>

text \<open>
  C1 is not what the code does. \<open>i915_load_modeset_init\<close> does not look at what
  \<open>i915_probe_agp\<close> returns. On an 865G whose bridge reports video memory as disabled
  (stolen-memory field 0) the probe returns -1, having already stored a preallocated
  size of 1 MiB and an aperture of 64 MiB. The sequence goes on all the same: its first
  two calls initialise the stolen-memory allocator over \<open>[0, 1 MiB)\<close> and the memory
  manager over \<open>[1 MiB, 64 MiB)\<close>, every later stage runs, and the function returns 0.
\<close>

theorem load_modeset_init_ignores_probe_failure:
  "i915_probe_agp gmch_layout (bridge_dev gms_disabled) (pdev (mapped pdev_865G))
     (stack_agp_size gms_disabled) (stack_prealloc_size gms_disabled) =
     (- 1, 67108864, 1048576) \<and>
   ret_of (i915_load_modeset_init gmch_layout gms_disabled (mapped pdev_865G)) = Some 0 \<and>
   new_calls (mapped pdev_865G)
     (i915_load_modeset_init gmch_layout gms_disabled (mapped pdev_865G)) =
     [Drm_memrange_init 0 1048576, I915_gem_do_init 1048576 67108864,
      I915_gem_init_ringbuffer 0,
      Drm_pci_alloc (Some \<lparr>vaddr = 1, busaddr = 0x1000000\<rparr>),
      Write32 HWS_PGA 0x1000000, Memset_page 1, Mutex_init,
      Create_singlethread_workqueue (Some 4), Intel_init_bios 0,
      Intel_modeset_init, Drm_helper_initial_config, Kstrdup True,
      Drm_irq_install 0]"
  by (simp add: model_defs example_defs)

text \<open>
  From ring-buffer initialisation on, the labels do unwind what was taken. Whenever the
  sequence returns an error, other than through the refused mapping of a G33 status
  page, the calls it has made take and return resources as a stack, newest first, and
  nothing is held at the end. The proof follows the sequence stage by stage; the first
  lemma is its second half, from work-queue creation on, after a status page has been
  set up by either strategy.
\<close>

lemmas bring_up_defs =
  i915_load_modeset_init_def i915_init_hwstatus_def i915_cleanup_hwstatus_def
  label_destroy_ringbuffer_def label_destroy_hws_def label_destroy_wq_def
  label_modeset_cleanup_def returning_def call_def I915_WRITE_def Let_def case_prod_beta
  acquired_def released_def map_failure_def ENOMEM_def EINVAL_def ENODEV_def

lemma rollback_after_status_page:
  assumes m: "i915_load_modeset_init c env dev = Inr (ret, dev')"
      and nz: "ret \<noteq> 0"
      and p: "dev_private dev = Some dev_priv"
      and mm: "mmio_map dev_priv \<noteq> None"
      and rb: "gem_init_ringbuffer_ret env = 0"
      and hw: "if IS_G33 c (pci_device dev)
               then search_free_res env \<noteq> None \<and> get_block_res env \<noteq> None \<and>
                    agp dev \<noteq> None \<and> ioremap_res env \<noteq> None
               else pci_alloc_res env \<noteq> None"
  shows "held [] (drop (length (calls dev)) (calls dev')) = Some []"
proof (cases "create_workqueue_res env")
  case None
  with m p mm rb hw show ?thesis
    by (cases "IS_G33 c (pci_device dev)") (auto simp add: bring_up_defs)
next
  case wq: (Some w)
  show ?thesis
  proof (cases "init_bios_ret env = 0")
    case False
    with m p mm rb hw wq show ?thesis
      by (cases "IS_G33 c (pci_device dev)") (auto simp add: bring_up_defs)
  next
    case bios: True
    show ?thesis
    proof (cases "kstrdup_ok env")
      case False
      with m p mm rb hw wq bios show ?thesis
        by (cases "IS_G33 c (pci_device dev)") (auto simp add: bring_up_defs)
    next
      case ks: True
      show ?thesis
      proof (cases "irq_install_ret env = 0")
        case False
        with m p mm rb hw wq bios ks show ?thesis
          by (cases "IS_G33 c (pci_device dev)") (auto simp add: bring_up_defs)
      next
        case True
        with m nz p mm rb hw wq bios ks show ?thesis
          by (cases "IS_G33 c (pci_device dev)") (auto simp add: bring_up_defs)
      qed
    qed
  qed
qed

lemma load_modeset_init_rollback:
  assumes m: "i915_load_modeset_init c env dev = Inr (ret, dev')"
      and nz: "ret \<noteq> 0"
      and nm: "\<not> map_failure c env dev"
  shows "held [] (new_calls dev (i915_load_modeset_init c env dev)) = Some []"
proof -
  from m obtain dev_priv where p: "dev_private dev = Some dev_priv"
    by (cases "dev_private dev") (simp_all add: i915_load_modeset_init_def)
  have "held [] (drop (length (calls dev)) (calls dev')) = Some []"
  proof (cases "gem_init_ringbuffer_ret env = 0")
    case False
    with m p show ?thesis
      by (auto simp add: bring_up_defs)
  next
    case rb: True
    show ?thesis
    proof (cases "IS_G33 c (pci_device dev)")
      case g: False
      show ?thesis
      proof (cases "pci_alloc_res env")
        case None
        with m p rb g show ?thesis
          by (auto simp add: bring_up_defs)
      next
        case (Some dmah)
        with g have hw: "if IS_G33 c (pci_device dev)
               then search_free_res env \<noteq> None \<and> get_block_res env \<noteq> None \<and>
                    agp dev \<noteq> None \<and> ioremap_res env \<noteq> None
               else pci_alloc_res env \<noteq> None"
          by simp
        from m p rb g Some have mm: "mmio_map dev_priv \<noteq> None"
          by (cases "mmio_map dev_priv") (auto simp add: bring_up_defs)
        from rollback_after_status_page [OF m nz p mm rb hw] show ?thesis .
      qed
    next
      case g: True
      show ?thesis
      proof (cases "search_free_res env")
        case None
        with m p rb g show ?thesis
          by (auto simp add: bring_up_defs)
      next
        case sf: (Some f)
        show ?thesis
        proof (cases "get_block_res env")
          case None
          with m p rb g sf show ?thesis
            by (auto simp add: bring_up_defs)
        next
          case gb: (Some b)
          from nm g sf gb have io: "ioremap_res env \<noteq> None"
            by (simp add: map_failure_def)
          from m p rb g sf gb have a: "agp dev \<noteq> None"
            by (cases "agp dev") (auto simp add: bring_up_defs)
          from g sf gb a io have hw: "if IS_G33 c (pci_device dev)
               then search_free_res env \<noteq> None \<and> get_block_res env \<noteq> None \<and>
                    agp dev \<noteq> None \<and> ioremap_res env \<noteq> None
               else pci_alloc_res env \<noteq> None"
            by simp
          from m p rb g sf gb a io have mm: "mmio_map dev_priv \<noteq> None"
            by (cases "mmio_map dev_priv") (auto simp add: bring_up_defs)
          from rollback_after_status_page [OF m nz p mm rb hw] show ?thesis .
        qed
      qed
    qed
  qed
  with m show ?thesis
    by (simp add: new_calls_def state_of_def)
qed

text \<open>
  C2 is not what the code does on one of its failure paths. On a G33 whose status page
  cannot be mapped, stage 5 fails after it has reserved a block of stolen memory. The
  sequence returns \<open>-ENOMEM\<close> and enters no later stage, and it gives the ring buffer
  back; but no call releases the block, which is still outstanding at the end: the
  partial resource of the failing stage is not released.
\<close>

theorem load_modeset_init_map_failure_leaks_block:
  "ret_of (i915_load_modeset_init gmch_layout map_fails (mapped pdev_G33)) = Some (- ENOMEM) \<and>
   new_calls (mapped pdev_G33)
     (i915_load_modeset_init gmch_layout map_fails (mapped pdev_G33)) =
     [Drm_memrange_init 0 8122368, I915_gem_do_init 8122368 268435456,
      I915_gem_init_ringbuffer 0, Drm_memrange_search_free (Some 2),
      Drm_memrange_get_block (Some \<lparr>start = 0x700000\<rparr>), Drm_core_ioremap None,
      I915_gem_cleanup_ringbuffer] \<and>
   outstanding []
     (new_calls (mapped pdev_G33)
        (i915_load_modeset_init gmch_layout map_fails (mapped pdev_G33))) =
     Some [Stolen_block \<lparr>start = 0x700000\<rparr>]"
  by (simp add: model_defs example_defs)

section \<open>Properties of load and unload\<close>








text \<open>
  The bring-up sequence passes on the codes of the ring buffer and of the interrupt
  installation and otherwise returns negated errno values. When those two collaborators
  keep to the kernel's convention (0 or a negative errno), a return value other than 0
  is negative, which is the test \<open>i915_driver_load\<close> makes.
\<close>

lemma load_modeset_init_ret_nonpositive:
  assumes "i915_load_modeset_init c env dev = Inr (ret, dev')"
      and "gem_init_ringbuffer_ret env \<le> 0" and "irq_install_ret env \<le> 0"
  shows "ret \<le> 0"
  using assms
  unfolding i915_load_modeset_init_def i915_init_hwstatus_def returning_def
  by (auto simp: Let_def ENOMEM_def EINVAL_def ENODEV_def
           split: option.splits if_splits sum.splits prod.splits)




text \<open>
  \<open>i915_driver_unload\<close> on a device whose register window is mapped: the whole list of
  its calls, in order, and the state it leaves. The calls of the status-page teardown
  are the releases that the status-page fields stand for, followed by the write to
  \<open>HWS_PGA\<close>.
\<close>

lemma driver_unload_mapped:
  assumes "dev_private dev = Some dev_priv" and "mmio_map dev_priv \<noteq> None"
  shows "\<exists>dev1.
           i915_driver_unload c dev = Inr (0, dev1) \<and>
           dev_private dev1 = None \<and>
           mmio dev1 = (mmio dev)(PRB0_CTL := 0, HWS_PGA := 0x1ffff000) \<and>
           calls dev1 =
             calls dev @ [Write32 PRB0_CTL 0] @
             (if driver_modeset dev
              then [Drm_irq_uninstall, Intel_modeset_cleanup, Destroy_workqueue (wq dev_priv)]
              else []) @
             status_page_releases c dev @ [Write32 HWS_PGA 0x1ffff000] @
             (if driver_modeset dev
              then [Mutex_lock, I915_gem_cleanup_ringbuffer, Mutex_unlock,
                    Drm_memrange_takedown, I915_gem_lastclose]
              else []) @
             [Drm_rmmap (mmio_map dev_priv), Drm_free]"
  using assms
  unfolding i915_driver_unload_def i915_cleanup_hwstatus_def status_page_releases_def
    private_of_def
  by (auto simp: Let_def call_def I915_WRITE_def split: option.splits)

lemma status_page_releases_no_reg_write:
  "filter is_reg_write (status_page_releases c dev) = []"
  unfolding status_page_releases_def
  by (simp add: is_reg_write_def split: option.splits)

text \<open>
  C6, as the code has it. The first thing \<open>i915_driver_unload\<close> does, in either mode, is
  to write 0 to \<open>PRB0_CTL\<close>, the control register of the ring buffer; every other call
  comes after it. The status register \<open>HWS_PGA\<close> is written once, with the value
  \<open>0x1ffff000\<close>, as the last call of the status-page teardown: after the releases of the
  status page and, in mode-setting mode, after the interrupt handler is uninstalled,
  mode setting is cleaned up and the work queue is destroyed; before the ring buffer is
  cleaned up and the register mapping is removed. The call returns 0. All this on a
  device whose register window is mapped, as it is after any load that succeeded.
\<close>

theorem driver_unload_first_write:
  assumes "dev_private dev = Some dev_priv" and "mmio_map dev_priv \<noteq> None"
  shows "\<exists>dev1.
           i915_driver_unload c dev = Inr (0, dev1) \<and>
           calls dev1 =
             calls dev @ [Write32 PRB0_CTL 0] @
             (if driver_modeset dev
              then [Drm_irq_uninstall, Intel_modeset_cleanup, Destroy_workqueue (wq dev_priv)]
              else []) @
             status_page_releases c dev @ [Write32 HWS_PGA 0x1ffff000] @
             (if driver_modeset dev
              then [Mutex_lock, I915_gem_cleanup_ringbuffer, Mutex_unlock,
                    Drm_memrange_takedown, I915_gem_lastclose]
              else []) @
             [Drm_rmmap (mmio_map dev_priv), Drm_free] \<and>
           filter is_reg_write (status_page_releases c dev) = []"
  using driver_unload_mapped [OF assms, of c] status_page_releases_no_reg_write [of c dev]
  by auto

text \<open>
  The statement at the loaded G33, whose status page is a mapped block of stolen
  memory.
\<close>

theorem driver_unload_first_write_witness:
  "dev_private (loaded pdev_G33) = Some (private_of (loaded pdev_G33)) \<and>
   mmio_map (private_of (loaded pdev_G33)) \<noteq> None \<and>
   status_page_releases gmch_layout (loaded pdev_G33) =
     [Drm_core_ioremapfree 3, Drm_memrange_put_block \<lparr>start = 0x700000\<rparr>] \<and>
   (\<exists>dev1.
      i915_driver_unload gmch_layout (loaded pdev_G33) = Inr (0, dev1) \<and>
      calls dev1 =
        calls (loaded pdev_G33) @ [Write32 PRB0_CTL 0] @
        (if driver_modeset (loaded pdev_G33)
         then [Drm_irq_uninstall, Intel_modeset_cleanup,
               Destroy_workqueue (wq (private_of (loaded pdev_G33)))]
         else []) @
        status_page_releases gmch_layout (loaded pdev_G33) @ [Write32 HWS_PGA 0x1ffff000] @
        (if driver_modeset (loaded pdev_G33)
         then [Mutex_lock, I915_gem_cleanup_ringbuffer, Mutex_unlock,
               Drm_memrange_takedown, I915_gem_lastclose]
         else []) @
        [Drm_rmmap (mmio_map (private_of (loaded pdev_G33))), Drm_free] \<and>
      filter is_reg_write (status_page_releases gmch_layout (loaded pdev_G33)) = [])"
proof -
  have h1: "dev_private (loaded pdev_G33) = Some (private_of (loaded pdev_G33))"
    by (simp add: model_defs example_defs)
  have h2: "mmio_map (private_of (loaded pdev_G33)) \<noteq> None"
    by (simp add: model_defs example_defs)
  have h3: "status_page_releases gmch_layout (loaded pdev_G33) =
     [Drm_core_ioremapfree 3, Drm_memrange_put_block \<lparr>start = 0x700000\<rparr>]"
    by (simp add: model_defs example_defs)
  from driver_unload_first_write [OF h1 h2, of gmch_layout] h1 h2 h3
  show ?thesis by blast
qed

text \<open>
  C6 as stated fails: on the loaded 865G the first call of unload is the write of 0 to
  \<open>PRB0_CTL\<close>, not a write to the status register, and the write of \<open>0x1ffff000\<close> to
  \<open>HWS_PGA\<close> is the sixth call, after the interrupt handler, mode setting and the work
  queue are gone.
\<close>

theorem driver_unload_first_write_is_not_status_register:
  "new_calls (loaded pdev_865G) (i915_driver_unload gmch_layout (loaded pdev_865G)) =
     [Write32 PRB0_CTL 0, Drm_irq_uninstall, Intel_modeset_cleanup,
      Destroy_workqueue (Some 4), Drm_pci_free \<lparr>vaddr = 1, busaddr = 0x1000000\<rparr>,
      Write32 HWS_PGA 0x1ffff000, Mutex_lock, I915_gem_cleanup_ringbuffer,
      Mutex_unlock, Drm_memrange_takedown, I915_gem_lastclose,
      Drm_rmmap (Some 5), Drm_free] \<and>
   Write32 PRB0_CTL 0 \<noteq> Write32 HWS_PGA 0x1ffff000"
  by (simp add: model_defs example_defs)

text \<open>
  C7, as the code has it. \<open>i915_driver_unload\<close> has no test for a null pointer, neither
  for the private block nor for the register mapping in it. On a device with a private
  block whose register mapping is unset, as in a partially initialised state, it faults
  in its first statement, the register write, in the very state in which it was
  entered. On a device whose register window is mapped it returns 0 and leaves
  \<open>dev->dev_private\<close> null; a second call on that state dereferences the null pointer
  in its first statement and faults in the state in which it was entered, so it makes
  no call and releases nothing a second time, but it does not return.
\<close>

theorem driver_unload_twice_faults:
  assumes "dev_private dev = Some dev_priv"
  shows "if mmio_map dev_priv = None
         then i915_driver_unload c dev = Inl (Null_dereference, dev)
         else \<exists>dev1. i915_driver_unload c dev = Inr (0, dev1) \<and>
                dev_private dev1 = None \<and>
                unload_twice c dev = Inl (Null_dereference, dev1)"
proof (cases "mmio_map dev_priv = None")
  case True
  with assms show ?thesis
    by (simp add: i915_driver_unload_def I915_WRITE_def)
next
  case False
  from driver_unload_mapped [OF assms False, of c]
  obtain dev1 where 1: "i915_driver_unload c dev = Inr (0, dev1)"
    and 2: "dev_private dev1 = None"
    by blast
  from 2 have "i915_driver_unload c dev1 = Inl (Null_dereference, dev1)"
    by (simp add: i915_driver_unload_def)
  with 1 2 False show ?thesis
    by (simp add: unload_twice_def)
qed

text \<open>
  The statement at the loaded 865G, and at the 865G whose private block is zeroed and
  nothing more.
\<close>

theorem driver_unload_twice_faults_witness:
  "dev_private (loaded pdev_865G) = Some (private_of (loaded pdev_865G)) \<and>
   mmio_map (private_of (loaded pdev_865G)) \<noteq> None \<and>
   (\<exists>dev1. i915_driver_unload gmch_layout (loaded pdev_865G) = Inr (0, dev1) \<and>
      dev_private dev1 = None \<and>
      unload_twice gmch_layout (loaded pdev_865G) = Inl (Null_dereference, dev1)) \<and>
   dev_private (zeroed pdev_865G) = Some zeroed_private \<and>
   mmio_map zeroed_private = None \<and>
   i915_driver_unload gmch_layout (zeroed pdev_865G) =
     Inl (Null_dereference, zeroed pdev_865G)"
proof -
  have h1: "dev_private (loaded pdev_865G) = Some (private_of (loaded pdev_865G))"
    by (simp add: model_defs example_defs)
  have h2: "mmio_map (private_of (loaded pdev_865G)) \<noteq> None"
    by (simp add: model_defs example_defs)
  have k1: "dev_private (zeroed pdev_865G) = Some zeroed_private"
    by (simp add: zeroed_def)
  have k2: "mmio_map zeroed_private = None"
    by (simp add: zeroed_private_def)
  from driver_unload_twice_faults [OF h1, of gmch_layout] h2
  have a: "\<exists>dev1. i915_driver_unload gmch_layout (loaded pdev_865G) = Inr (0, dev1) \<and>
      dev_private dev1 = None \<and>
      unload_twice gmch_layout (loaded pdev_865G) = Inl (Null_dereference, dev1)"
    by simp
  from driver_unload_twice_faults [OF k1, of gmch_layout] k2
  have b: "i915_driver_unload gmch_layout (zeroed pdev_865G) =
     Inl (Null_dereference, zeroed pdev_865G)"
    by simp
  from h1 h2 a k1 k2 b show ?thesis by blast
qed

text \<open>
  C7 as stated fails: on the loaded 865G the first unload returns and the second one
  faults, and on the 865G whose private block is only zeroed the first unload faults.
\<close>

theorem driver_unload_twice_crashes:
  "ret_of (i915_driver_unload gmch_layout (loaded pdev_865G)) = Some 0 \<and>
   \<not> faulted (i915_driver_unload gmch_layout (loaded pdev_865G)) \<and>
   faulted (unload_twice gmch_layout (loaded pdev_865G)) \<and>
   faulted (i915_driver_unload gmch_layout (zeroed pdev_865G))"
  by (simp add: model_defs example_defs)

end
